theory Spec2Isabelle
  imports Main "HOL-Library.Word"
begin

section \<open>The JavaScript values the class works on\<close>

text \<open>
  A JavaScript string is a sequence of 16-bit code units. Literals of the source are
  written \<open>js ''...''\<close>.
\<close>

type_synonym jsstring = "16 word list"

definition js :: "string \<Rightarrow> jsstring" where
  "js s = map of_char s"

type_synonym addr = nat

text \<open>
  Objects live in a store and are referred to by address, so that two references to one
  object see each other's writes. Arrays are values without identity (no operation of the
  class writes to an array). Numbers are the integers; functions, symbols, dates and
  big integers are not modelled.
\<close>

datatype jsval =
    Undefined
  | Null
  | Bool bool
  | Num int
  | Str jsstring
  | Arr "jsval list"
  | Ref addr

datatype exn = URIError | TypeError | SyntaxError | RangeError

text \<open>\<open>ToBoolean\<close> and the operator \<open>a || b\<close>.\<close>

fun ToBoolean :: "jsval \<Rightarrow> bool" where
  "ToBoolean Undefined = False"
| "ToBoolean Null = False"
| "ToBoolean (Bool b) = b"
| "ToBoolean (Num n) = (n \<noteq> 0)"
| "ToBoolean (Str s) = (s \<noteq> [])"
| "ToBoolean (Arr vs) = True"
| "ToBoolean (Ref a) = True"

definition js_or :: "jsval \<Rightarrow> jsval \<Rightarrow> jsval" where
  "js_or a b = (if ToBoolean a then a else b)"

subsection \<open>The store\<close>

text \<open>
  An object is its own enumerable properties, in insertion order, and whether
  \<open>Object.freeze\<close> has been applied to it.
\<close>

record jsobj =
  props :: "(jsstring \<times> jsval) list"
  frozen :: bool

type_synonym heap = "jsobj list"

definition new_object :: "heap \<Rightarrow> addr \<times> heap" where
  "new_object h = (length h, h @ [\<lparr>props = [], frozen = False\<rparr>])"

text \<open>Writing a key of a property list: in place when the key exists, at the end otherwise.\<close>

fun put :: "jsstring \<Rightarrow> jsval \<Rightarrow> (jsstring \<times> jsval) list \<Rightarrow> (jsstring \<times> jsval) list" where
  "put k v [] = [(k, v)]"
| "put k v ((k', v') # ps) = (if k' = k then (k, v) # ps else (k', v') # put k v ps)"

text \<open>
  \<open>o[k]\<close>: \<open>undefined\<close> when the object has no such property. An address outside the
  store does not occur in a running program; reading through one gives \<open>undefined\<close>.
\<close>

definition Get :: "heap \<Rightarrow> addr \<Rightarrow> jsstring \<Rightarrow> jsval" where
  "Get h a k =
     (if a < length h
      then (case map_of (props (h ! a)) k of None \<Rightarrow> Undefined | Some v \<Rightarrow> v)
      else Undefined)"

text \<open>
  \<open>o[k] = v\<close>. On a frozen object the assignment does not happen: strict code gets a
  \<open>TypeError\<close>, sloppy code continues silently. The result is the exception, if any, and
  the store after the statement. (Writing through an address outside the store, which
  does not occur either, is the \<open>TypeError\<close> of writing to \<open>undefined\<close>.)
\<close>

definition Set_prop :: "bool \<Rightarrow> heap \<Rightarrow> addr \<Rightarrow> jsstring \<Rightarrow> jsval \<Rightarrow> exn option \<times> heap" where
  "Set_prop strict h a k v =
     (if a < length h
      then (if frozen (h ! a)
            then (if strict then Some TypeError else None, h)
            else (None, h[a := (h ! a)\<lparr>props := put k v (props (h ! a))\<rparr>]))
      else (Some TypeError, h))"

text \<open>\<open>Object.freeze(o)\<close>.\<close>

definition Object_freeze :: "heap \<Rightarrow> addr \<Rightarrow> heap" where
  "Object_freeze h a = (if a < length h then h[a := (h ! a)\<lparr>frozen := True\<rparr>] else h)"

text \<open>\<open>Object.keys(o)\<close> and \<open>Object.entries(o)\<close> of a property list.\<close>

definition Object_keys :: "(jsstring \<times> jsval) list \<Rightarrow> jsstring list" where
  "Object_keys ps = map fst ps"

text \<open>\<open>Object.assign({}, ...sources)\<close>: the sources' properties are written in turn.\<close>

definition Object_assign :: "(jsstring \<times> jsval) list \<Rightarrow> (jsstring \<times> jsval) list list \<Rightarrow> (jsstring \<times> jsval) list" where
  "Object_assign target sources = foldl (\<lambda>t s. foldl (\<lambda>t' (k, v). put k v t') t s) target sources"

section \<open>encodeURI\<close>

definition uriReserved :: jsstring where
  "uriReserved = js '';/?:@&=+$,''"

definition uriAlpha :: jsstring where
  "uriAlpha = js ''abcdefghijklmnopqrstuvwxyzABCDEFGHIJKLMNOPQRSTUVWXYZ''"

definition DecimalDigit :: jsstring where
  "DecimalDigit = js ''0123456789''"

definition uriMark :: jsstring where
  "uriMark = js ''-_.!~*'' @ [0x27] @ js ''()''"

text \<open>The code units \<open>encodeURI\<close> leaves as they are.\<close>

definition unescapedURISet :: jsstring where
  "unescapedURISet = uriReserved @ uriAlpha @ DecimalDigit @ uriMark @ js ''#''"

definition is_lead :: "16 word \<Rightarrow> bool" where
  "is_lead c = (0xD800 \<le> c \<and> c \<le> 0xDBFF)"

definition is_trail :: "16 word \<Rightarrow> bool" where
  "is_trail c = (0xDC00 \<le> c \<and> c \<le> 0xDFFF)"

definition UTF16SurrogatePairToCodePoint :: "16 word \<Rightarrow> 16 word \<Rightarrow> nat" where
  "UTF16SurrogatePairToCodePoint lead trail =
     (unat lead - 0xD800) * 0x400 + (unat trail - 0xDC00) + 0x10000"

definition utf8 :: "nat \<Rightarrow> nat list" where
  "utf8 cp =
     (if cp < 0x80 then [cp]
      else if cp < 0x800 then [0xC0 + cp div 0x40, 0x80 + cp mod 0x40]
      else if cp < 0x10000
        then [0xE0 + cp div 0x1000, 0x80 + (cp div 0x40) mod 0x40, 0x80 + cp mod 0x40]
      else [0xF0 + cp div 0x40000, 0x80 + (cp div 0x1000) mod 0x40,
            0x80 + (cp div 0x40) mod 0x40, 0x80 + cp mod 0x40])"

definition hexDigit :: "nat \<Rightarrow> 16 word" where
  "hexDigit n = (if n < 10 then 0x30 + of_nat n else 0x41 + of_nat (n - 10))"

definition percent :: "nat \<Rightarrow> jsstring" where
  "percent octet = [0x25, hexDigit (octet div 16), hexDigit (octet mod 16)]"

definition escape :: "nat \<Rightarrow> jsstring" where
  "escape cp = concat (map percent (utf8 cp))"

text \<open>
  The abstract operation \<open>Encode\<close> of ECMAScript: a code unit of the unescaped set is
  copied, any other code point is written as the percent-escapes of its UTF-8 octets, and
  a surrogate without its partner raises \<open>URIError\<close>.
\<close>

fun Encode :: "jsstring \<Rightarrow> jsstring \<Rightarrow> exn + jsstring" where
  "Encode unescaped [] = Inr []"
| "Encode unescaped (c # cs) =
     (if c \<in> set unescaped then
        (case Encode unescaped cs of Inl e \<Rightarrow> Inl e | Inr r \<Rightarrow> Inr (c # r))
      else if is_trail c then Inl URIError
      else if is_lead c then
        (case cs of
           [] \<Rightarrow> Inl URIError
         | d # ds \<Rightarrow>
             if is_trail d then
               (case Encode unescaped ds of
                  Inl e \<Rightarrow> Inl e
                | Inr r \<Rightarrow> Inr (escape (UTF16SurrogatePairToCodePoint c d) @ r))
             else Inl URIError)
      else
        (case Encode unescaped cs of Inl e \<Rightarrow> Inl e | Inr r \<Rightarrow> Inr (escape (unat c) @ r)))"

definition encodeURI :: "jsstring \<Rightarrow> exn + jsstring" where
  "encodeURI s = Encode unescapedURISet s"

section \<open>JSON\<close>

text \<open>
  The tree of a JSON text: what \<open>JSON.stringify\<close> writes and what \<open>JSON.parse\<close> builds
  (fresh objects and arrays, nothing shared). \<open>Num n\<close> and \<open>JNum n\<close> stand for the number
  \<open>n\<close>, an integer within \<open>\<plusminus>(2^53 - 1)\<close>, whose numeral is its decimal digits.
\<close>

datatype json =
    JNull
  | JBool bool
  | JNum int
  | JStr jsstring
  | JArr "json list"
  | JObj "(jsstring \<times> json) list"

subsection \<open>JSON.stringify\<close>



subsection \<open>Writing the text\<close>











subsection \<open>JSON.parse\<close>














section \<open>The constructor's input\<close>

text \<open>
  Modelled from the spec: the type of the constructor's argument, which the source infers
  from the schema declared in \<open>./schema\<close>. By the spec, \<open>id\<close>, \<open>datacontenttype\<close> and
  \<open>specversion\<close> are optional strings, \<open>type\<close>, \<open>source\<close> and \<open>subject\<close> are strings,
  \<open>time\<close> is optional and timestamp-like (a string, a number or a date object), \<open>data\<close>
  is a keyed record (here the address of the payload object in the store), and the six
  extension fields are each a string, \<open>null\<close> or absent.
\<close>

datatype nullable = Absent | IsNull | Given jsstring

fun of_optional :: "jsstring option \<Rightarrow> jsval" where
  "of_optional None = Undefined"
| "of_optional (Some s) = Str s"

fun of_nullable :: "nullable \<Rightarrow> jsval" where
  "of_nullable Absent = Undefined"
| "of_nullable IsNull = Null"
| "of_nullable (Given s) = Str s"

record IXOrcaCloudEvent =
  id' :: "jsstring option"
  time :: jsval
  type :: jsstring
  source :: jsstring
  datacontenttype :: "jsstring option"
  subject :: jsstring
  data :: addr
  specversion :: "jsstring option"
  to :: nullable
  redirectto :: nullable
  traceparent :: nullable
  tracestate :: nullable
  elapsedtime :: nullable
  executionunits :: nullable

section \<open>The class XOrcaCloudEvent\<close>

text \<open>Sequencing of statements that may throw.\<close>

definition and_then :: "exn + 'a \<Rightarrow> ('a \<Rightarrow> exn + 'b) \<Rightarrow> exn + 'b" where
  "and_then r f = (case r of Inl e \<Rightarrow> Inl e | Inr x \<Rightarrow> f x)"

text \<open>\<open>this.k = v\<close> in the constructor (a class body is strict code).\<close>

definition assign :: "heap \<Rightarrow> addr \<Rightarrow> jsstring \<Rightarrow> jsval \<Rightarrow> exn + heap" where
  "assign h this k v =
     (case Set_prop True h this k v of (None, h') \<Rightarrow> Inr h' | (Some e, h') \<Rightarrow> Inl e)"

text \<open>\<open>x ? encodeURI(x) : null\<close>\<close>

definition encodeURI_or_null :: "nullable \<Rightarrow> exn + jsval" where
  "encodeURI_or_null x =
     (if ToBoolean (of_nullable x)
      then (case x of Given s \<Rightarrow> and_then (encodeURI s) (\<lambda>r. Inr (Str r)) | _ \<Rightarrow> Inr Null)
      else Inr Null)"

text \<open>
  The constructor. Two functions it calls are defined elsewhere and are parameters here:
  \<open>uuidv4\<close> is the string the identifier generator of the \<open>uuid\<close> package returns at
  this call, and \<open>convertToISOString\<close> is the helper of \<open>./utils\<close>, which may throw.
  \<open>new\<close> allocates \<open>this\<close>; the field declarations of the class have no initialisers and
  create no property, so the properties come into being in the order of the assignments.
  The result is the exception thrown, or the address of the event and the store.
\<close>

definition XOrcaCloudEvent_constructor ::
  "jsstring \<Rightarrow> (jsval \<Rightarrow> exn + jsstring) \<Rightarrow> IXOrcaCloudEvent \<Rightarrow> heap \<Rightarrow> exn + (addr \<times> heap)" where
  "XOrcaCloudEvent_constructor uuidv4 convertToISOString event h0 =
     (case new_object h0 of (this, h) \<Rightarrow>
      and_then (assign h this (js ''id'') (js_or (of_optional (id' event)) (Str uuidv4))) (\<lambda>h.
      and_then (convertToISOString (time event)) (\<lambda>t.
      and_then (assign h this (js ''time'') (Str t)) (\<lambda>h.
      and_then (assign h this (js ''type'') (Str (type event))) (\<lambda>h.
      and_then (encodeURI (source event)) (\<lambda>s.
      and_then (assign h this (js ''source'') (Str s)) (\<lambda>h.
      and_then (assign h this (js ''datacontenttype'')
        (js_or (of_optional (datacontenttype event))
           (Str (js ''application/cloudevents+json; charset=UTF-8; profile=xorca'')))) (\<lambda>h.
      and_then (assign h this (js ''subject'') (Str (subject event))) (\<lambda>h.
      and_then (assign h this (js ''data'') (Ref (data event))) (\<lambda>h.
      and_then (assign h this (js ''specversion'')
        (js_or (of_optional (specversion event)) (Str (js ''1.0'')))) (\<lambda>h.
      and_then (encodeURI_or_null (to event)) (\<lambda>v.
      and_then (assign h this (js ''to'') v) (\<lambda>h.
      and_then (encodeURI_or_null (redirectto event)) (\<lambda>v.
      and_then (assign h this (js ''redirectto'') v) (\<lambda>h.
      and_then (assign h this (js ''traceparent'') (js_or (of_nullable (traceparent event)) Null)) (\<lambda>h.
      and_then (assign h this (js ''tracestate'') (js_or (of_nullable (tracestate event)) Null)) (\<lambda>h.
      and_then (assign h this (js ''elapsedtime'') (js_or (of_nullable (elapsedtime event)) Null)) (\<lambda>h.
      and_then (assign h this (js ''executionunits'')
        (js_or (of_nullable (executionunits event)) Null)) (\<lambda>h.
      Inr (this, Object_freeze h this))))))))))))))))))))"

text \<open>
  The methods read \<open>this\<close> in the store. Each returns a fresh plain object, given here as
  its property list.
\<close>

definition own_props :: "heap \<Rightarrow> addr \<Rightarrow> (jsstring \<times> jsval) list" where
  "own_props h a = (if a < length h then props (h ! a) else [])"

text \<open>\<open>{ ...this }\<close>\<close>

definition toJSON :: "heap \<Rightarrow> addr \<Rightarrow> (jsstring \<times> jsval) list" where
  "toJSON h this = own_props h this"


definition xorcaExtensions :: "heap \<Rightarrow> addr \<Rightarrow> (jsstring \<times> jsval) list" where
  "xorcaExtensions h this =
     [(js ''to'', Get h this (js ''to'')),
      (js ''redirectto'', Get h this (js ''redirectto'')),
      (js ''traceparent'', Get h this (js ''traceparent'')),
      (js ''tracestate'', Get h this (js ''tracestate'')),
      (js ''executionunits'', Get h this (js ''executionunits'')),
      (js ''elapsedtime'', Get h this (js ''elapsedtime''))]"

definition extensionFields :: "heap \<Rightarrow> addr \<Rightarrow> jsstring list" where
  "extensionFields h this = Object_keys (xorcaExtensions h this)"

definition cloudevent :: "heap \<Rightarrow> addr \<Rightarrow> (jsstring \<times> jsval) list" where
  "cloudevent h this =
     Object_assign []
       (map (\<lambda>(key, value). [(key, value)])
          (filter (\<lambda>(key, value). key \<notin> set (extensionFields h this)) (toJSON h this)))"

definition openTelemetryAttributes :: "heap \<Rightarrow> addr \<Rightarrow> (jsstring \<times> jsval) list" where
  "openTelemetryAttributes h this =
     [(js ''cloudevents.event_id'', js_or (Get h this (js ''id'')) (Str [])),
      (js ''cloudevents.event_source'', js_or (Get h this (js ''source'')) (Str [])),
      (js ''cloudevents.event_spec_version'', js_or (Get h this (js ''specversion'')) (Str [])),
      (js ''cloudevents.event_subject'', js_or (Get h this (js ''subject'')) (Str [])),
      (js ''cloudevents.event_type'', js_or (Get h this (js ''type'')) (Str [])),
      (js ''cloudevents.xorca.event_redirectto'', js_or (Get h this (js ''redirectto'')) (Str [])),
      (js ''cloudevents.xorca.event_to'', js_or (Get h this (js ''to'')) (Str [])),
      (js ''cloudevents.xorca.event_executionunits'',
         js_or (Get h this (js ''executionunits'')) (Str [])),
      (js ''cloudevents.xorca.event_elapsedtime'',
         js_or (Get h this (js ''elapsedtime'')) (Str []))]"

text \<open>The fields the class declares, in the order of the declarations.\<close>

definition declared_fields :: "jsstring list" where
  "declared_fields =
     [js ''id'', js ''type'', js ''source'', js ''specversion'', js ''datacontenttype'',
      js ''subject'', js ''time'', js ''data'', js ''redirectto'', js ''to'', js ''traceparent'',
      js ''tracestate'', js ''elapsedtime'', js ''executionunits'']"

section \<open>Deep equality and JSON-representable values\<close>






text \<open>
  Auxiliary notions about rendered text: what may follow a value inside a text, the text
  of one member of an object, and the texts a value can start.
\<close>

definition ok_rest :: "jsstring \<Rightarrow> bool" where
  "ok_rest rest = (case rest of [] \<Rightarrow> True | c # r \<Rightarrow> c = 0x2C \<or> c = 0x5D \<or> c = 0x7D)"



section \<open>Version-4 identifiers\<close>

text \<open>
  The shape the \<open>uuid\<close> package accepts as a version-4 identifier: hexadecimal digits in
  groups of 8, 4, 4, 4 and 12 separated by hyphens, with the version digit \<open>4\<close> and a
  variant digit among \<open>8\<close>, \<open>9\<close>, \<open>a\<close>, \<open>b\<close>.
\<close>

definition is_hex :: "16 word \<Rightarrow> bool" where
  "is_hex c = (c \<in> set (js ''0123456789abcdefABCDEF''))"

definition is_uuid_v4 :: "jsstring \<Rightarrow> bool" where
  "is_uuid_v4 s =
     (length s = 36 \<and>
      list_all is_hex (take 8 s) \<and> s ! 8 = 0x2D \<and>
      list_all is_hex (take 4 (drop 9 s)) \<and> s ! 13 = 0x2D \<and>
      s ! 14 = 0x34 \<and> list_all is_hex (take 3 (drop 15 s)) \<and> s ! 18 = 0x2D \<and>
      s ! 19 \<in> set (js ''89abAB'') \<and> list_all is_hex (take 3 (drop 20 s)) \<and> s ! 23 = 0x2D \<and>
      list_all is_hex (drop 24 s))"

section \<open>Concrete inputs\<close>

text \<open>
  The record \<open>{type: "order.created", source: "svc/orders", subject: "order-42",
  data: {amount: 10}}\<close>, the store that holds its payload at address 0, a version-4
  identifier for the generator to return and a conversion that returns one fixed instant.
\<close>

definition example_uuid :: jsstring where
  "example_uuid = js ''9b1deb4d-3b7d-4bad-9bdf-2b0d7b3dcb6d''"

definition example_convertToISOString :: "jsval \<Rightarrow> exn + jsstring" where
  "example_convertToISOString v = Inr (js ''2024-05-01T12:00:00.000Z'')"

definition example_heap :: heap where
  "example_heap = [\<lparr>props = [(js ''amount'', Num 10)], frozen = False\<rparr>]"

definition example_input :: IXOrcaCloudEvent where
  "example_input =
     \<lparr>id' = None, time = Undefined, type = js ''order.created'', source = js ''svc/orders'',
      datacontenttype = None, subject = js ''order-42'', data = 0, specversion = None,
      to = Absent, redirectto = Absent, traceparent = Absent, tracestate = Absent,
      elapsedtime = Absent, executionunits = Absent\<rparr>"

text \<open>The example with three of the four tracing and metering fields supplied.\<close>

definition traced_input :: IXOrcaCloudEvent where
  "traced_input = example_input
     \<lparr>traceparent := Given (js ''00-4bf92f3577b34da6a3ce929d0e0e4736-00f067aa0ba902b7-01''),
      tracestate := IsNull, elapsedtime := Given (js ''12''), executionunits := Absent\<rparr>"

text \<open>The example with the empty string in each of the nine defaulted fields.\<close>

definition empty_strings_input :: IXOrcaCloudEvent where
  "empty_strings_input = example_input
     \<lparr>id' := Some [], datacontenttype := Some [], specversion := Some [],
      to := Given [], redirectto := Given [], traceparent := Given [], tracestate := Given [],
      elapsedtime := Given [], executionunits := Given []\<rparr>"




text \<open>Reading a field of the event a construction returned, if it returned one.\<close>

definition field_of :: "exn + (addr \<times> heap) \<Rightarrow> jsstring \<Rightarrow> jsval option" where
  "field_of r k = (case r of Inl e \<Rightarrow> None | Inr (this, h) \<Rightarrow> Some (Get h this k))"


section \<open>What the constructor builds\<close>

text \<open>
  The property list of a constructed event, given the results of the four calls that may
  throw.
\<close>

definition event_props ::
  "jsstring \<Rightarrow> IXOrcaCloudEvent \<Rightarrow> jsstring \<Rightarrow> jsstring \<Rightarrow> jsval \<Rightarrow> jsval \<Rightarrow> (jsstring \<times> jsval) list" where
  "event_props uuidv4 event t s v_to v_redirectto =
     [(js ''id'', js_or (of_optional (id' event)) (Str uuidv4)),
      (js ''time'', Str t),
      (js ''type'', Str (type event)),
      (js ''source'', Str s),
      (js ''datacontenttype'', js_or (of_optional (datacontenttype event))
         (Str (js ''application/cloudevents+json; charset=UTF-8; profile=xorca''))),
      (js ''subject'', Str (subject event)),
      (js ''data'', Ref (data event)),
      (js ''specversion'', js_or (of_optional (specversion event)) (Str (js ''1.0''))),
      (js ''to'', v_to),
      (js ''redirectto'', v_redirectto),
      (js ''traceparent'', js_or (of_nullable (traceparent event)) Null),
      (js ''tracestate'', js_or (of_nullable (tracestate event)) Null),
      (js ''elapsedtime'', js_or (of_nullable (elapsedtime event)) Null),
      (js ''executionunits'', js_or (of_nullable (executionunits event)) Null)]"

text \<open>The store after the construction from \<open>example_input\<close>.\<close>

definition example_store :: heap where
  "example_store = example_heap @
     [\<lparr>props = event_props example_uuid example_input (js ''2024-05-01T12:00:00.000Z'')
         (js ''svc/orders'') Null Null, frozen = True\<rparr>]"


lemma Set_prop_fresh:
  "Set_prop strict (h @ [\<lparr>props = ps, frozen = False\<rparr>]) (length h) k v =
     (None, h @ [\<lparr>props = put k v ps, frozen = False\<rparr>])"
  by (simp add: Set_prop_def)

lemma assign_fresh:
  "assign (h @ [\<lparr>props = ps, frozen = False\<rparr>]) (length h) k v =
     Inr (h @ [\<lparr>props = put k v ps, frozen = False\<rparr>])"
  by (simp add: assign_def Set_prop_fresh)

lemma Object_freeze_fresh:
  "Object_freeze (h @ [\<lparr>props = ps, frozen = b\<rparr>]) (length h) =
     h @ [\<lparr>props = ps, frozen = True\<rparr>]"
  by (simp add: Object_freeze_def)

text \<open>
  The assignments to the fresh \<open>this\<close> cannot throw: a construction fails only in the
  time conversion or in one of the three calls of \<open>encodeURI\<close>, in that order, and
  otherwise returns a frozen object with the fourteen properties.
\<close>

lemma constructor_eq:
  "XOrcaCloudEvent_constructor uuidv4 conv event h0 =
     and_then (conv (time event)) (\<lambda>t.
     and_then (encodeURI (source event)) (\<lambda>s.
     and_then (encodeURI_or_null (to event)) (\<lambda>v_to.
     and_then (encodeURI_or_null (redirectto event)) (\<lambda>v_redirectto.
       Inr (length h0,
            h0 @ [\<lparr>props = event_props uuidv4 event t s v_to v_redirectto,
                   frozen = True\<rparr>])))))"
  unfolding XOrcaCloudEvent_constructor_def new_object_def event_props_def
  by (simp add: assign_fresh Object_freeze_fresh js_def and_then_def split: sum.splits)

lemma constructor_Inr:
  assumes "XOrcaCloudEvent_constructor uuidv4 conv event h0 = Inr (this, h)"
  obtains t s v_to v_redirectto where
    "conv (time event) = Inr t" "encodeURI (source event) = Inr s"
    "encodeURI_or_null (to event) = Inr v_to"
    "encodeURI_or_null (redirectto event) = Inr v_redirectto"
    "this = length h0"
    "h = h0 @ [\<lparr>props = event_props uuidv4 event t s v_to v_redirectto, frozen = True\<rparr>]"
  using assms unfolding constructor_eq and_then_def
  by (auto split: sum.splits)

lemma Get_last:
  "Get (h0 @ [\<lparr>props = ps, frozen = b\<rparr>]) (length h0) k =
     (case map_of ps k of None \<Rightarrow> Undefined | Some v \<Rightarrow> v)"
  by (simp add: Get_def)

lemma Get_event_props:
  "Get (h0 @ [\<lparr>props = event_props u e t s vt vr, frozen = b\<rparr>]) (length h0) (js ''id'') =
     js_or (of_optional (id' e)) (Str u)"
  "Get (h0 @ [\<lparr>props = event_props u e t s vt vr, frozen = b\<rparr>]) (length h0) (js ''time'') =
     Str t"
  "Get (h0 @ [\<lparr>props = event_props u e t s vt vr, frozen = b\<rparr>]) (length h0) (js ''type'') =
     Str (type e)"
  "Get (h0 @ [\<lparr>props = event_props u e t s vt vr, frozen = b\<rparr>]) (length h0) (js ''source'') =
     Str s"
  "Get (h0 @ [\<lparr>props = event_props u e t s vt vr, frozen = b\<rparr>]) (length h0)
     (js ''datacontenttype'') =
     js_or (of_optional (datacontenttype e))
       (Str (js ''application/cloudevents+json; charset=UTF-8; profile=xorca''))"
  "Get (h0 @ [\<lparr>props = event_props u e t s vt vr, frozen = b\<rparr>]) (length h0) (js ''subject'') =
     Str (subject e)"
  "Get (h0 @ [\<lparr>props = event_props u e t s vt vr, frozen = b\<rparr>]) (length h0) (js ''data'') =
     Ref (data e)"
  "Get (h0 @ [\<lparr>props = event_props u e t s vt vr, frozen = b\<rparr>]) (length h0)
     (js ''specversion'') = js_or (of_optional (specversion e)) (Str (js ''1.0''))"
  "Get (h0 @ [\<lparr>props = event_props u e t s vt vr, frozen = b\<rparr>]) (length h0) (js ''to'') = vt"
  "Get (h0 @ [\<lparr>props = event_props u e t s vt vr, frozen = b\<rparr>]) (length h0)
     (js ''redirectto'') = vr"
  "Get (h0 @ [\<lparr>props = event_props u e t s vt vr, frozen = b\<rparr>]) (length h0)
     (js ''traceparent'') = js_or (of_nullable (traceparent e)) Null"
  "Get (h0 @ [\<lparr>props = event_props u e t s vt vr, frozen = b\<rparr>]) (length h0)
     (js ''tracestate'') = js_or (of_nullable (tracestate e)) Null"
  "Get (h0 @ [\<lparr>props = event_props u e t s vt vr, frozen = b\<rparr>]) (length h0)
     (js ''elapsedtime'') = js_or (of_nullable (elapsedtime e)) Null"
  "Get (h0 @ [\<lparr>props = event_props u e t s vt vr, frozen = b\<rparr>]) (length h0)
     (js ''executionunits'') = js_or (of_nullable (executionunits e)) Null"
  by (simp_all add: Get_last event_props_def js_def)

lemma encodeURI_svc_orders: "encodeURI (js ''svc/orders'') = Inr (js ''svc/orders'')"
  by (simp add: encodeURI_def unescapedURISet_def uriReserved_def uriAlpha_def DecimalDigit_def
      uriMark_def js_def)

lemma encodeURI_or_null_simps:
  "encodeURI_or_null Absent = Inr Null"
  "encodeURI_or_null IsNull = Inr Null"
  "encodeURI_or_null (Given []) = Inr Null"
  by (simp_all add: encodeURI_or_null_def)

lemma svc_orders_constructed:
  "source event = js ''svc/orders'' \<Longrightarrow> to event \<in> {Absent, IsNull, Given []} \<Longrightarrow>
   redirectto event \<in> {Absent, IsNull, Given []} \<Longrightarrow>
   XOrcaCloudEvent_constructor uuidv4 example_convertToISOString event h0 =
     Inr (length h0, h0 @
       [\<lparr>props = event_props uuidv4 event (js ''2024-05-01T12:00:00.000Z'')
           (js ''svc/orders'') Null Null, frozen = True\<rparr>])"
  by (auto simp add: constructor_eq and_then_def example_convertToISOString_def
      encodeURI_svc_orders encodeURI_or_null_simps)

lemma example_constructed:
  "XOrcaCloudEvent_constructor example_uuid example_convertToISOString example_input
     example_heap = Inr (1, example_store)"
proof -
  have "length example_heap = 1"
    by (simp add: example_heap_def)
  moreover have "XOrcaCloudEvent_constructor example_uuid example_convertToISOString
      example_input example_heap = Inr (length example_heap, example_store)"
    unfolding example_store_def
    by (rule svc_orders_constructed) (simp_all add: example_input_def)
  ultimately show ?thesis
    by simp
qed

lemma Get_example_store:
  "Get example_store 1 k =
     (case map_of (event_props example_uuid example_input (js ''2024-05-01T12:00:00.000Z'')
         (js ''svc/orders'') Null Null) k of None \<Rightarrow> Undefined | Some v \<Rightarrow> v)"
  using Get_last [of example_heap _ True k]
  by (simp add: example_store_def) (simp add: example_heap_def)

section \<open>The fields of a constructed event\<close>

text \<open>
  C2 (the specversion field), as the code has it: the specversion of a constructed event is
  the caller's value when the caller gives one that is not the empty string, and \<open>"1.0"\<close>
  when the caller gives none or the empty string. So it is \<open>"1.0"\<close> whenever the caller's
  value is absent, empty or \<open>"1.0"\<close> itself.
\<close>

theorem specversion_caller_or_default:
  assumes "XOrcaCloudEvent_constructor uuidv4 conv event h0 = Inr (this, h)"
  shows "Get h this (js ''specversion'') =
           (case specversion event of
              None \<Rightarrow> Str (js ''1.0'')
            | Some s \<Rightarrow> if s = [] then Str (js ''1.0'') else Str s)"
  using assms
  by (elim constructor_Inr) (simp add: Get_event_props js_or_def split: option.splits)

theorem specversion_caller_or_default_witness:
  "XOrcaCloudEvent_constructor example_uuid example_convertToISOString example_input
     example_heap = Inr (1, example_store)
   \<and> Get example_store 1 (js ''specversion'') = Str (js ''1.0'')"
proof -
  have "specversion example_input = None"
    by (simp add: example_input_def)
  with specversion_caller_or_default [OF example_constructed] show ?thesis
    by (simp add: example_constructed)
qed

text \<open>
  C2 as stated fails: a caller who supplies \<open>"2.0"\<close> gets an event whose specversion is
  \<open>"2.0"\<close>.
\<close>

theorem specversion_counterexample:
  "field_of (XOrcaCloudEvent_constructor example_uuid example_convertToISOString
      (example_input\<lparr>specversion := Some (js ''2.0'')\<rparr>) example_heap) (js ''specversion'')
     = Some (Str (js ''2.0'')) \<and> Str (js ''2.0'') \<noteq> Str (js ''1.0'')"
  by (simp add: svc_orders_constructed example_input_def field_of_def Get_event_props js_or_def)
     (simp add: js_def)

lemma is_uuid_v4_example: "is_uuid_v4 example_uuid"
  by (simp add: is_uuid_v4_def example_uuid_def is_hex_def js_def)

text \<open>
  C3 (the id field), as the code has it: when the caller supplies an id that is not the empty
  string, the event's id is that string exactly; when the caller omits the id or supplies
  the empty string, the event's id is the string the identifier generator returns. With a
  generator that returns a version-4 identifier, the id is non-empty in every case.
\<close>

theorem id_caller_or_generated:
  assumes "XOrcaCloudEvent_constructor uuidv4 conv event h0 = Inr (this, h)"
    and "is_uuid_v4 uuidv4"
  shows "Get h this (js ''id'') =
           (case id' event of
              None \<Rightarrow> Str uuidv4
            | Some s \<Rightarrow> if s = [] then Str uuidv4 else Str s)
         \<and> Get h this (js ''id'') \<noteq> Str []"
proof -
  from assms(2) have "uuidv4 \<noteq> []"
    by (auto simp: is_uuid_v4_def)
  with assms(1) show ?thesis
    by (elim constructor_Inr) (simp add: Get_event_props js_or_def split: option.splits)
qed

theorem id_caller_or_generated_witness:
  "XOrcaCloudEvent_constructor example_uuid example_convertToISOString example_input
     example_heap = Inr (1, example_store)
   \<and> is_uuid_v4 example_uuid
   \<and> Get example_store 1 (js ''id'') = Str example_uuid
   \<and> Get example_store 1 (js ''id'') \<noteq> Str []"
proof -
  have "id' example_input = None"
    by (simp add: example_input_def)
  with id_caller_or_generated [OF example_constructed is_uuid_v4_example] show ?thesis
    by (auto simp add: example_constructed is_uuid_v4_example)
qed

text \<open>
  C3 as stated fails: a caller who supplies the empty string as id does not get it back,
  the event carries the generated identifier.
\<close>

theorem id_counterexample:
  "field_of (XOrcaCloudEvent_constructor example_uuid example_convertToISOString
      (example_input\<lparr>id' := Some []\<rparr>) example_heap) (js ''id'')
     = Some (Str example_uuid) \<and> Str example_uuid \<noteq> Str []"
  by (simp add: svc_orders_constructed example_input_def field_of_def Get_event_props js_or_def)
     (simp add: js_def example_uuid_def)

text \<open>
  C8 (traceparent, tracestate, elapsedtime, executionunits), as the code has it: each of
  the four fields holds the caller's string unmodified when the caller supplies a string
  that is not empty, and \<open>null\<close> when the caller supplies \<open>null\<close>, the empty string, or
  nothing.
\<close>

theorem trace_fields_pass_through:
  assumes "XOrcaCloudEvent_constructor uuidv4 conv event h0 = Inr (this, h)"
  shows "Get h this (js ''traceparent'') =
           (case traceparent event of
              Absent \<Rightarrow> Null | IsNull \<Rightarrow> Null
            | Given s \<Rightarrow> if s = [] then Null else Str s)
         \<and> Get h this (js ''tracestate'') =
           (case tracestate event of
              Absent \<Rightarrow> Null | IsNull \<Rightarrow> Null
            | Given s \<Rightarrow> if s = [] then Null else Str s)
         \<and> Get h this (js ''elapsedtime'') =
           (case elapsedtime event of
              Absent \<Rightarrow> Null | IsNull \<Rightarrow> Null
            | Given s \<Rightarrow> if s = [] then Null else Str s)
         \<and> Get h this (js ''executionunits'') =
           (case executionunits event of
              Absent \<Rightarrow> Null | IsNull \<Rightarrow> Null
            | Given s \<Rightarrow> if s = [] then Null else Str s)"
  using assms
  by (elim constructor_Inr) (simp add: Get_event_props js_or_def split: nullable.splits)

theorem trace_fields_pass_through_witness:
  "field_of (XOrcaCloudEvent_constructor example_uuid example_convertToISOString traced_input
      example_heap) (js ''traceparent'')
     = Some (Str (js ''00-4bf92f3577b34da6a3ce929d0e0e4736-00f067aa0ba902b7-01''))
   \<and> field_of (XOrcaCloudEvent_constructor example_uuid example_convertToISOString traced_input
      example_heap) (js ''tracestate'') = Some Null
   \<and> field_of (XOrcaCloudEvent_constructor example_uuid example_convertToISOString traced_input
      example_heap) (js ''elapsedtime'') = Some (Str (js ''12''))
   \<and> field_of (XOrcaCloudEvent_constructor example_uuid example_convertToISOString traced_input
      example_heap) (js ''executionunits'') = Some Null"
proof -
  let ?h = "example_heap @
       [\<lparr>props = event_props example_uuid traced_input (js ''2024-05-01T12:00:00.000Z'')
           (js ''svc/orders'') Null Null, frozen = True\<rparr>]"
  have c: "XOrcaCloudEvent_constructor example_uuid example_convertToISOString traced_input
      example_heap = Inr (length example_heap, ?h)"
    by (rule svc_orders_constructed) (simp_all add: traced_input_def example_input_def)
  have "traceparent traced_input = Given (js ''00-4bf92f3577b34da6a3ce929d0e0e4736-00f067aa0ba902b7-01'')"
    "tracestate traced_input = IsNull" "elapsedtime traced_input = Given (js ''12'')"
    "executionunits traced_input = Absent"
    by (simp_all add: traced_input_def example_input_def)
  with trace_fields_pass_through [OF c] show ?thesis
    unfolding c field_of_def by (simp add: js_def)
qed

text \<open>
  C8 as stated fails: the empty string is a string value, and it is not passed through;
  the field becomes \<open>null\<close>.
\<close>

theorem trace_fields_counterexample:
  "field_of (XOrcaCloudEvent_constructor example_uuid example_convertToISOString
      (example_input\<lparr>traceparent := Given []\<rparr>) example_heap) (js ''traceparent'')
     = Some Null \<and> Null \<noteq> Str []"
  by (simp add: svc_orders_constructed example_input_def field_of_def Get_event_props js_or_def)

lemma constructor_empty_as_absent:
  "id' event = Some [] \<Longrightarrow>
     XOrcaCloudEvent_constructor uuidv4 conv (event\<lparr>id' := None\<rparr>) h0 =
     XOrcaCloudEvent_constructor uuidv4 conv event h0"
  "datacontenttype event = Some [] \<Longrightarrow>
     XOrcaCloudEvent_constructor uuidv4 conv (event\<lparr>datacontenttype := None\<rparr>) h0 =
     XOrcaCloudEvent_constructor uuidv4 conv event h0"
  "specversion event = Some [] \<Longrightarrow>
     XOrcaCloudEvent_constructor uuidv4 conv (event\<lparr>specversion := None\<rparr>) h0 =
     XOrcaCloudEvent_constructor uuidv4 conv event h0"
  "to event = Given [] \<Longrightarrow>
     XOrcaCloudEvent_constructor uuidv4 conv (event\<lparr>to := Absent\<rparr>) h0 =
     XOrcaCloudEvent_constructor uuidv4 conv event h0"
  "redirectto event = Given [] \<Longrightarrow>
     XOrcaCloudEvent_constructor uuidv4 conv (event\<lparr>redirectto := Absent\<rparr>) h0 =
     XOrcaCloudEvent_constructor uuidv4 conv event h0"
  "traceparent event = Given [] \<Longrightarrow>
     XOrcaCloudEvent_constructor uuidv4 conv (event\<lparr>traceparent := Absent\<rparr>) h0 =
     XOrcaCloudEvent_constructor uuidv4 conv event h0"
  "tracestate event = Given [] \<Longrightarrow>
     XOrcaCloudEvent_constructor uuidv4 conv (event\<lparr>tracestate := Absent\<rparr>) h0 =
     XOrcaCloudEvent_constructor uuidv4 conv event h0"
  "elapsedtime event = Given [] \<Longrightarrow>
     XOrcaCloudEvent_constructor uuidv4 conv (event\<lparr>elapsedtime := Absent\<rparr>) h0 =
     XOrcaCloudEvent_constructor uuidv4 conv event h0"
  "executionunits event = Given [] \<Longrightarrow>
     XOrcaCloudEvent_constructor uuidv4 conv (event\<lparr>executionunits := Absent\<rparr>) h0 =
     XOrcaCloudEvent_constructor uuidv4 conv event h0"
  by (simp_all add: constructor_eq event_props_def js_or_def encodeURI_or_null_simps)

lemma empty_string_fields:
  assumes "XOrcaCloudEvent_constructor uuidv4 conv event h0 = Inr (this, h)"
  shows "id' event = Some [] \<Longrightarrow> Get h this (js ''id'') = Str uuidv4"
    "datacontenttype event = Some [] \<Longrightarrow> Get h this (js ''datacontenttype'') =
       Str (js ''application/cloudevents+json; charset=UTF-8; profile=xorca'')"
    "specversion event = Some [] \<Longrightarrow> Get h this (js ''specversion'') = Str (js ''1.0'')"
    "to event = Given [] \<Longrightarrow> Get h this (js ''to'') = Null"
    "redirectto event = Given [] \<Longrightarrow> Get h this (js ''redirectto'') = Null"
    "traceparent event = Given [] \<Longrightarrow> Get h this (js ''traceparent'') = Null"
    "tracestate event = Given [] \<Longrightarrow> Get h this (js ''tracestate'') = Null"
    "elapsedtime event = Given [] \<Longrightarrow> Get h this (js ''elapsedtime'') = Null"
    "executionunits event = Given [] \<Longrightarrow> Get h this (js ''executionunits'') = Null"
  using assms
  by (elim constructor_Inr; simp add: Get_event_props js_or_def encodeURI_or_null_simps)+

text \<open>
  C9 (the empty string counts as absent): for each of the nine defaulted fields, an input
  with the empty string in that field gives the value the default gives (the generated
  identifier for id, the canonical content type, \<open>"1.0"\<close> for specversion, \<open>null\<close> for the
  six extension fields), and the whole construction returns what it returns for the same
  input with the field left out.
\<close>

theorem empty_string_as_absent:
  assumes "XOrcaCloudEvent_constructor uuidv4 conv event h0 = Inr (this, h)"
  shows "(id' event = Some [] \<longrightarrow>
            Get h this (js ''id'') = Str uuidv4 \<and>
            XOrcaCloudEvent_constructor uuidv4 conv (event\<lparr>id' := None\<rparr>) h0 = Inr (this, h))
       \<and> (datacontenttype event = Some [] \<longrightarrow>
            Get h this (js ''datacontenttype'') =
              Str (js ''application/cloudevents+json; charset=UTF-8; profile=xorca'') \<and>
            XOrcaCloudEvent_constructor uuidv4 conv (event\<lparr>datacontenttype := None\<rparr>) h0 =
              Inr (this, h))
       \<and> (specversion event = Some [] \<longrightarrow>
            Get h this (js ''specversion'') = Str (js ''1.0'') \<and>
            XOrcaCloudEvent_constructor uuidv4 conv (event\<lparr>specversion := None\<rparr>) h0 =
              Inr (this, h))
       \<and> (to event = Given [] \<longrightarrow>
            Get h this (js ''to'') = Null \<and>
            XOrcaCloudEvent_constructor uuidv4 conv (event\<lparr>to := Absent\<rparr>) h0 = Inr (this, h))
       \<and> (redirectto event = Given [] \<longrightarrow>
            Get h this (js ''redirectto'') = Null \<and>
            XOrcaCloudEvent_constructor uuidv4 conv (event\<lparr>redirectto := Absent\<rparr>) h0 =
              Inr (this, h))
       \<and> (traceparent event = Given [] \<longrightarrow>
            Get h this (js ''traceparent'') = Null \<and>
            XOrcaCloudEvent_constructor uuidv4 conv (event\<lparr>traceparent := Absent\<rparr>) h0 =
              Inr (this, h))
       \<and> (tracestate event = Given [] \<longrightarrow>
            Get h this (js ''tracestate'') = Null \<and>
            XOrcaCloudEvent_constructor uuidv4 conv (event\<lparr>tracestate := Absent\<rparr>) h0 =
              Inr (this, h))
       \<and> (elapsedtime event = Given [] \<longrightarrow>
            Get h this (js ''elapsedtime'') = Null \<and>
            XOrcaCloudEvent_constructor uuidv4 conv (event\<lparr>elapsedtime := Absent\<rparr>) h0 =
              Inr (this, h))
       \<and> (executionunits event = Given [] \<longrightarrow>
            Get h this (js ''executionunits'') = Null \<and>
            XOrcaCloudEvent_constructor uuidv4 conv (event\<lparr>executionunits := Absent\<rparr>) h0 =
              Inr (this, h))"
  using assms empty_string_fields [OF assms]
  by (simp add: constructor_empty_as_absent)

theorem empty_string_as_absent_witness:
  "XOrcaCloudEvent_constructor example_uuid example_convertToISOString empty_strings_input
     example_heap = Inr (1, example_store)
   \<and> Get example_store 1 (js ''id'') = Str example_uuid
   \<and> Get example_store 1 (js ''datacontenttype'') =
        Str (js ''application/cloudevents+json; charset=UTF-8; profile=xorca'')
   \<and> Get example_store 1 (js ''specversion'') = Str (js ''1.0'')
   \<and> Get example_store 1 (js ''to'') = Null
   \<and> Get example_store 1 (js ''redirectto'') = Null
   \<and> Get example_store 1 (js ''traceparent'') = Null
   \<and> Get example_store 1 (js ''tracestate'') = Null
   \<and> Get example_store 1 (js ''elapsedtime'') = Null
   \<and> Get example_store 1 (js ''executionunits'') = Null"
proof -
  have "XOrcaCloudEvent_constructor example_uuid example_convertToISOString empty_strings_input
      example_heap = Inr (length example_heap, example_heap @
       [\<lparr>props = event_props example_uuid empty_strings_input (js ''2024-05-01T12:00:00.000Z'')
           (js ''svc/orders'') Null Null, frozen = True\<rparr>])"
    by (rule svc_orders_constructed) (simp_all add: empty_strings_input_def example_input_def)
  moreover have "event_props example_uuid empty_strings_input (js ''2024-05-01T12:00:00.000Z'')
           (js ''svc/orders'') Null Null = event_props example_uuid example_input (js ''2024-05-01T12:00:00.000Z'')
           (js ''svc/orders'') Null Null"
    by (simp add: event_props_def empty_strings_input_def example_input_def js_or_def)
  moreover have "length example_heap = 1"
    by (simp add: example_heap_def)
  ultimately have c: "XOrcaCloudEvent_constructor example_uuid example_convertToISOString
      empty_strings_input example_heap = Inr (1, example_store)"
    by (simp add: example_store_def)
  have "id' empty_strings_input = Some []" "datacontenttype empty_strings_input = Some []"
    "specversion empty_strings_input = Some []" "to empty_strings_input = Given []"
    "redirectto empty_strings_input = Given []" "traceparent empty_strings_input = Given []"
    "tracestate empty_strings_input = Given []" "elapsedtime empty_strings_input = Given []"
    "executionunits empty_strings_input = Given []"
    by (simp_all add: empty_strings_input_def example_input_def)
  with empty_string_as_absent [OF c] c show ?thesis
    by simp
qed

lemma encodeURI_svc_name_topic:
  "encodeURI (js ''svc name/topic'') = Inr (js ''svc%20name/topic'')"
  by (simp add: encodeURI_def unescapedURISet_def uriReserved_def uriAlpha_def DecimalDigit_def
      uriMark_def js_def is_trail_def is_lead_def escape_def utf8_def percent_def hexDigit_def)

lemma Encode_unescaped: "set s \<subseteq> set unescaped \<Longrightarrow> Encode unescaped s = Inr s"
  by (induction s) auto

text \<open>
  C1 (the end-to-end example), as the code has it: for the example record, whatever the
  generator and the time conversion return, the construction returns an event with
  specversion \<open>"1.0"\<close>, the canonical content type, source \<open>"svc/orders"\<close> (unchanged:
  \<open>encodeURI\<close> leaves the reserved character \<open>/\<close> as it is), \<open>to\<close> and \<open>redirectto\<close> null,
  the generated id and the converted time. In general the source is stored as
  \<open>encodeURI\<close> of the caller's source: a string made of unescaped characters (letters,
  digits, the marks and the reserved characters) is stored unchanged, and any other
  character is percent-encoded, as the space of \<open>"svc name/topic"\<close> is.
\<close>

theorem end_to_end_example:
  assumes "conv Undefined = Inr t"
  shows "(\<exists>this h.
            XOrcaCloudEvent_constructor uuidv4 conv example_input example_heap = Inr (this, h)
          \<and> Get h this (js ''specversion'') = Str (js ''1.0'')
          \<and> Get h this (js ''datacontenttype'') =
               Str (js ''application/cloudevents+json; charset=UTF-8; profile=xorca'')
          \<and> Get h this (js ''source'') = Str (js ''svc/orders'')
          \<and> Get h this (js ''to'') = Null
          \<and> Get h this (js ''redirectto'') = Null
          \<and> Get h this (js ''id'') = Str uuidv4
          \<and> Get h this (js ''time'') = Str t)
       \<and> (\<forall>event h0 this h.
            XOrcaCloudEvent_constructor uuidv4 conv event h0 = Inr (this, h) \<longrightarrow>
            (\<exists>s. encodeURI (source event) = Inr s \<and> Get h this (js ''source'') = Str s))
       \<and> encodeURI (js ''svc name/topic'') = Inr (js ''svc%20name/topic'')
       \<and> (\<forall>s. set s \<subseteq> set unescapedURISet \<longrightarrow> encodeURI s = Inr s)"
proof -
  have "XOrcaCloudEvent_constructor uuidv4 conv example_input example_heap =
      Inr (length example_heap, example_heap @
        [\<lparr>props = event_props uuidv4 example_input t (js ''svc/orders'') Null Null,
          frozen = True\<rparr>])"
    using assms
    by (simp add: constructor_eq and_then_def example_input_def encodeURI_svc_orders
        encodeURI_or_null_simps)
  moreover have "id' example_input = None" "datacontenttype example_input = None"
    "specversion example_input = None"
    by (simp_all add: example_input_def)
  ultimately have first: "\<exists>this h.
            XOrcaCloudEvent_constructor uuidv4 conv example_input example_heap = Inr (this, h)
          \<and> Get h this (js ''specversion'') = Str (js ''1.0'')
          \<and> Get h this (js ''datacontenttype'') =
               Str (js ''application/cloudevents+json; charset=UTF-8; profile=xorca'')
          \<and> Get h this (js ''source'') = Str (js ''svc/orders'')
          \<and> Get h this (js ''to'') = Null
          \<and> Get h this (js ''redirectto'') = Null
          \<and> Get h this (js ''id'') = Str uuidv4
          \<and> Get h this (js ''time'') = Str t"
    by (simp add: Get_event_props js_or_def)
  have second: "\<exists>s. encodeURI (source event) = Inr s \<and> Get h this (js ''source'') = Str s"
    if "XOrcaCloudEvent_constructor uuidv4 conv event h0 = Inr (this, h)" for event h0 this h
    using that by (elim constructor_Inr) (simp add: Get_event_props)
  show ?thesis
    using first second encodeURI_svc_name_topic
    by (simp add: encodeURI_def Encode_unescaped)
qed

theorem end_to_end_example_witness:
  "example_convertToISOString Undefined = Inr (js ''2024-05-01T12:00:00.000Z'')
   \<and> XOrcaCloudEvent_constructor example_uuid example_convertToISOString example_input
        example_heap = Inr (1, example_store)
   \<and> Get example_store 1 (js ''specversion'') = Str (js ''1.0'')
   \<and> Get example_store 1 (js ''datacontenttype'') =
        Str (js ''application/cloudevents+json; charset=UTF-8; profile=xorca'')
   \<and> Get example_store 1 (js ''source'') = Str (js ''svc/orders'')
   \<and> Get example_store 1 (js ''to'') = Null
   \<and> Get example_store 1 (js ''redirectto'') = Null
   \<and> Get example_store 1 (js ''id'') = Str example_uuid
   \<and> Get example_store 1 (js ''time'') = Str (js ''2024-05-01T12:00:00.000Z'')"
proof -
  have c: "example_convertToISOString Undefined = Inr (js ''2024-05-01T12:00:00.000Z'')"
    by (simp add: example_convertToISOString_def)
  from end_to_end_example [of example_convertToISOString _ example_uuid, OF c] show ?thesis
    by (auto simp add: example_constructed c)
qed

text \<open>
  C1 as stated fails: the source of the example is stored as \<open>"svc/orders"\<close>, not as
  \<open>"svc%2Forders"\<close>.
\<close>

theorem source_counterexample:
  "field_of (XOrcaCloudEvent_constructor example_uuid example_convertToISOString example_input
      example_heap) (js ''source'') = Some (Str (js ''svc/orders''))
   \<and> Str (js ''svc/orders'') \<noteq> Str (js ''svc%2Forders'')"
  by (simp add: svc_orders_constructed example_input_def field_of_def Get_event_props)
     (simp add: js_def)

section \<open>The derived views\<close>

lemma toJSON_last: "toJSON (h0 @ [\<lparr>props = ps, frozen = b\<rparr>]) (length h0) = ps"
  by (simp add: toJSON_def own_props_def)

lemma extensionFields_eq:
  "extensionFields h this =
     [js ''to'', js ''redirectto'', js ''traceparent'', js ''tracestate'', js ''executionunits'',
      js ''elapsedtime'']"
  by (simp add: extensionFields_def xorcaExtensions_def Object_keys_def)

lemma cloudevent_event_props:
  "cloudevent (h0 @ [\<lparr>props = event_props u e t s vt vr, frozen = b\<rparr>]) (length h0) =
     take 8 (event_props u e t s vt vr)"
  unfolding cloudevent_def toJSON_last extensionFields_eq
  by (simp add: event_props_def Object_assign_def js_def)

lemma core_keys:
  "Object_keys (take 8 (event_props u e t s vt vr)) =
     [js ''id'', js ''time'', js ''type'', js ''source'', js ''datacontenttype'', js ''subject'',
      js ''data'', js ''specversion'']"
  by (simp add: event_props_def Object_keys_def)

text \<open>
  C4 (the partition into core and extension fields): for every constructed event,
  \<open>extensionFields\<close> is exactly the six extension names, the keys of the \<open>cloudevent\<close> view
  are the eight others, the two lists are disjoint, and together they hold each of the
  fourteen declared fields exactly once.
\<close>

theorem core_extension_partition:
  assumes "XOrcaCloudEvent_constructor uuidv4 conv event h0 = Inr (this, h)"
  shows "extensionFields h this =
           [js ''to'', js ''redirectto'', js ''traceparent'', js ''tracestate'',
            js ''executionunits'', js ''elapsedtime'']
       \<and> Object_keys (cloudevent h this) =
           [js ''id'', js ''time'', js ''type'', js ''source'', js ''datacontenttype'',
            js ''subject'', js ''data'', js ''specversion'']
       \<and> set (Object_keys (cloudevent h this)) \<inter> set (extensionFields h this) = {}
       \<and> distinct (Object_keys (cloudevent h this) @ extensionFields h this)
       \<and> set (Object_keys (cloudevent h this) @ extensionFields h this) = set declared_fields
       \<and> distinct declared_fields \<and> length declared_fields = 14"
proof -
  have keys: "Object_keys (cloudevent h this) =
           [js ''id'', js ''time'', js ''type'', js ''source'', js ''datacontenttype'',
            js ''subject'', js ''data'', js ''specversion'']"
    using assms by (elim constructor_Inr) (simp add: cloudevent_event_props core_keys)
  show ?thesis
    unfolding keys extensionFields_eq declared_fields_def
    by (auto simp add: js_def)
qed

theorem core_extension_partition_witness:
  "XOrcaCloudEvent_constructor example_uuid example_convertToISOString example_input
     example_heap = Inr (1, example_store)
   \<and> extensionFields example_store 1 =
       [js ''to'', js ''redirectto'', js ''traceparent'', js ''tracestate'',
        js ''executionunits'', js ''elapsedtime'']
   \<and> Object_keys (cloudevent example_store 1) =
       [js ''id'', js ''time'', js ''type'', js ''source'', js ''datacontenttype'',
        js ''subject'', js ''data'', js ''specversion'']
   \<and> set (Object_keys (cloudevent example_store 1)) \<inter> set (extensionFields example_store 1) = {}
   \<and> set (Object_keys (cloudevent example_store 1) @ extensionFields example_store 1) =
       set declared_fields"
  using core_extension_partition [OF example_constructed] example_constructed
  by blast

lemma js_or_empty_string:
  "js_or (Str s) (Str []) = Str s" "js_or Null (Str []) = Str []"
  by (auto simp: js_or_def)

lemma encodeURI_or_null_cases:
  "encodeURI_or_null x = Inr v \<Longrightarrow> v = Null \<or> (\<exists>r. v = Str r)"
  by (cases x) (auto simp: encodeURI_or_null_def and_then_def split: if_splits sum.splits)

lemma js_or_null_cases:
  "js_or (of_nullable x) Null = Null \<or> (\<exists>r. js_or (of_nullable x) Null = Str r)"
  by (cases x) (auto simp: js_or_def)

lemma js_or_optional_Str: "\<exists>r. js_or (of_optional x) (Str d) = Str r"
  by (cases x) (auto simp: js_or_def)

lemma null_to_empty: "v = Null \<or> (\<exists>r. v = Str r) \<Longrightarrow>
    js_or v (Str []) = (if v = Null then Str [] else v)"
  by (auto simp: js_or_empty_string)

text \<open>
  C5 (the telemetry attributes): for every constructed event, \<open>openTelemetryAttributes()\<close>
  has exactly the nine keys, in this order; the five core attributes carry the field's
  value, and each of the four extension attributes carries the field's value, or the empty
  string when the field is \<open>null\<close>, which is not the string \<open>"null"\<close>.
\<close>

theorem openTelemetryAttributes_values:
  assumes "XOrcaCloudEvent_constructor uuidv4 conv event h0 = Inr (this, h)"
  shows "openTelemetryAttributes h this =
     [(js ''cloudevents.event_id'', Get h this (js ''id'')),
      (js ''cloudevents.event_source'', Get h this (js ''source'')),
      (js ''cloudevents.event_spec_version'', Get h this (js ''specversion'')),
      (js ''cloudevents.event_subject'', Get h this (js ''subject'')),
      (js ''cloudevents.event_type'', Get h this (js ''type'')),
      (js ''cloudevents.xorca.event_redirectto'',
         if Get h this (js ''redirectto'') = Null then Str []
         else Get h this (js ''redirectto'')),
      (js ''cloudevents.xorca.event_to'',
         if Get h this (js ''to'') = Null then Str [] else Get h this (js ''to'')),
      (js ''cloudevents.xorca.event_executionunits'',
         if Get h this (js ''executionunits'') = Null then Str []
         else Get h this (js ''executionunits'')),
      (js ''cloudevents.xorca.event_elapsedtime'',
         if Get h this (js ''elapsedtime'') = Null then Str []
         else Get h this (js ''elapsedtime''))]
    \<and> Str [] \<noteq> Str (js ''null'')"
proof -
  from assms obtain t s v_to v_redirectto where
    to: "encodeURI_or_null (to event) = Inr v_to" and
    redirectto: "encodeURI_or_null (redirectto event) = Inr v_redirectto" and
    addr: "this = length h0" and
    h: "h = h0 @ [\<lparr>props = event_props uuidv4 event t s v_to v_redirectto, frozen = True\<rparr>]"
    by (elim constructor_Inr)
  obtain i d v where
    strs: "js_or (of_optional (id' event)) (Str uuidv4) = Str i"
      "js_or (of_optional (datacontenttype event))
         (Str (js ''application/cloudevents+json; charset=UTF-8; profile=xorca'')) = Str d"
      "js_or (of_optional (specversion event)) (Str (js ''1.0'')) = Str v"
    using js_or_optional_Str by metis
  have nulls:
    "v_to = Null \<or> (\<exists>r. v_to = Str r)"
    "v_redirectto = Null \<or> (\<exists>r. v_redirectto = Str r)"
    "js_or (of_nullable (executionunits event)) Null = Null \<or>
       (\<exists>r. js_or (of_nullable (executionunits event)) Null = Str r)"
    "js_or (of_nullable (elapsedtime event)) Null = Null \<or>
       (\<exists>r. js_or (of_nullable (elapsedtime event)) Null = Str r)"
    using to redirectto
    by (simp_all add: encodeURI_or_null_cases js_or_null_cases)
  have "js ''null'' \<noteq> []"
    by (simp add: js_def)
  then show ?thesis
    unfolding openTelemetryAttributes_def addr h Get_event_props strs
    using nulls by (simp add: null_to_empty js_or_empty_string)
qed

theorem openTelemetryAttributes_values_witness:
  "XOrcaCloudEvent_constructor example_uuid example_convertToISOString example_input
     example_heap = Inr (1, example_store)
   \<and> openTelemetryAttributes example_store 1 =
     [(js ''cloudevents.event_id'', Str example_uuid),
      (js ''cloudevents.event_source'', Str (js ''svc/orders'')),
      (js ''cloudevents.event_spec_version'', Str (js ''1.0'')),
      (js ''cloudevents.event_subject'', Str (js ''order-42'')),
      (js ''cloudevents.event_type'', Str (js ''order.created'')),
      (js ''cloudevents.xorca.event_redirectto'', Str []),
      (js ''cloudevents.xorca.event_to'', Str []),
      (js ''cloudevents.xorca.event_executionunits'', Str []),
      (js ''cloudevents.xorca.event_elapsedtime'', Str [])]"
proof -
  have "Get example_store 1 (js ''id'') = Str example_uuid"
    "Get example_store 1 (js ''source'') = Str (js ''svc/orders'')"
    "Get example_store 1 (js ''specversion'') = Str (js ''1.0'')"
    "Get example_store 1 (js ''subject'') = Str (js ''order-42'')"
    "Get example_store 1 (js ''type'') = Str (js ''order.created'')"
    "Get example_store 1 (js ''redirectto'') = Null"
    "Get example_store 1 (js ''to'') = Null"
    "Get example_store 1 (js ''executionunits'') = Null"
    "Get example_store 1 (js ''elapsedtime'') = Null"
    unfolding Get_example_store
    by (simp_all add: event_props_def example_input_def js_or_def js_def)
  with openTelemetryAttributes_values [OF example_constructed] show ?thesis
    by (simp add: example_constructed)
qed

section \<open>Immutability\<close>

text \<open>
  C6 (a constructed event is frozen): an assignment to any key of a constructed event,
  from strict or from sloppy code, leaves the store as it was (strict code gets a
  \<open>TypeError\<close>), so every later read of the event returns what it returned before.
\<close>

theorem event_is_frozen:
  assumes "XOrcaCloudEvent_constructor uuidv4 conv event h0 = Inr (this, h)"
  shows "Set_prop strict h this k v = (if strict then Some TypeError else None, h)
       \<and> Get (snd (Set_prop strict h this k v)) this k' = Get h this k'"
  using assms
  by (elim constructor_Inr) (simp add: Set_prop_def)

theorem event_is_frozen_witness:
  "XOrcaCloudEvent_constructor example_uuid example_convertToISOString example_input
     example_heap = Inr (1, example_store)
   \<and> Set_prop True example_store 1 (js ''subject'') (Str (js ''order-43'')) =
       (Some TypeError, example_store)
   \<and> Set_prop False example_store 1 (js ''subject'') (Str (js ''order-43'')) =
       (None, example_store)
   \<and> Get (snd (Set_prop False example_store 1 (js ''subject'') (Str (js ''order-43'')))) 1
       (js ''subject'') = Get example_store 1 (js ''subject'')"
  using event_is_frozen [OF example_constructed, of True "js ''subject''" "Str (js ''order-43'')"]
    event_is_frozen [OF example_constructed, of False "js ''subject''" "Str (js ''order-43'')"
      "js ''subject''"]
  by (simp add: example_constructed)







section \<open>Serialisation\<close>

subsection \<open>Strings: the quoted text parses back to the string\<close>

















subsection \<open>Numbers: the decimal numeral parses back to the integer\<close>













subsection \<open>Values: the rendered text parses back to the tree\<close>

















lemma ok_rest_simps [simp]:
  "ok_rest []" "ok_rest (0x2C # r)" "ok_rest (0x5D # r)" "ok_rest (0x7D # r)"
  by (simp_all add: ok_rest_def)










subsection \<open>What the serialisation keeps\<close>
























end
